theory Spec2Isabelle
  imports Complex_Main
begin

section \<open>Python and numpy primitives used by the waypoint manager\<close>

text \<open>
  The node is Python: integers are unbounded (\<open>int\<close>), floating-point numbers are
  idealised as \<open>real\<close>, and every operation that can raise is a function into
  \<open>py_error + 'a\<close> with the exception on the left.
\<close>

datatype py_error = IndexError | ValueError | ZeroDivisionError

text \<open>\<^verbatim>\<open>xs[i]\<close> on a Python list: a negative subscript is counted from the end.\<close>

definition py_getitem :: "'a list \<Rightarrow> int \<Rightarrow> py_error + 'a" where
  "py_getitem xs i =
     (if 0 \<le> i \<and> i < int (length xs) then Inr (xs ! nat i)
      else if i < 0 \<and> - int (length xs) \<le> i then Inr (xs ! nat (int (length xs) + i))
      else Inl IndexError)"

text \<open>\<^verbatim>\<open>del xs[i]\<close>: the same subscript rule, the element is taken out.\<close>

definition py_delitem :: "'a list \<Rightarrow> int \<Rightarrow> py_error + 'a list" where
  "py_delitem xs i =
     (if 0 \<le> i \<and> i < int (length xs)
        then Inr (take (nat i) xs @ drop (Suc (nat i)) xs)
      else if i < 0 \<and> - int (length xs) \<le> i
        then Inr (take (nat (int (length xs) + i)) xs @ drop (Suc (nat (int (length xs) + i))) xs)
      else Inl IndexError)"

text \<open>
  \<^verbatim>\<open>xs.insert(i, v)\<close> never raises: a negative position is counted from the end, and
  a position outside the list is moved to the nearer end.
\<close>

definition py_insert :: "'a list \<Rightarrow> int \<Rightarrow> 'a \<Rightarrow> 'a list" where
  "py_insert xs i v =
     (let n = int (length xs);
          j = (if i < 0 then max 0 (n + i) else min i n)
      in take (nat j) xs @ v # drop (nat j) xs)"

text \<open>\<^verbatim>\<open>a % b\<close> on integers: the result has the sign of \<open>b\<close>, as \<open>mod\<close> on \<open>int\<close> has.\<close>

definition py_mod :: "int \<Rightarrow> int \<Rightarrow> py_error + int" where
  "py_mod a b = (if b = 0 then Inl ZeroDivisionError else Inr (a mod b))"

text \<open>
  A one-dimensional numpy array is the list of its entries. \<^verbatim>\<open>a[k]\<close> with a constant
  \<open>k \<ge> 0\<close> raises IndexError past the end; \<^verbatim>\<open>a - b\<close> is entrywise on equal shapes,
  broadcasts a one-entry array, and raises ValueError on any other pair of shapes.
\<close>

definition np_item :: "real list \<Rightarrow> nat \<Rightarrow> py_error + real" where
  "np_item a k = (if k < length a then Inr (a ! k) else Inl IndexError)"

definition np_sub :: "real list \<Rightarrow> real list \<Rightarrow> py_error + real list" where
  "np_sub a b =
     (if length a = length b then Inr (map (\<lambda>(u, v). u - v) (zip a b))
      else if length b = 1 then Inr (map (\<lambda>u. u - hd b) a)
      else if length a = 1 then Inr (map (\<lambda>v. hd a - v) b)
      else Inl ValueError)"

definition np_linalg_norm :: "real list \<Rightarrow> real" where
  "np_linalg_norm a = sqrt (sum_list (map (\<lambda>u. u\<^sup>2) a))"

text \<open>\<^verbatim>\<open>np.arctan2(y, x)\<close>: the angle of the point \<open>(x, y)\<close>, in \<open>(-\<pi>, \<pi>]\<close>.\<close>

definition np_arctan2 :: "real \<Rightarrow> real \<Rightarrow> real" where
  "np_arctan2 y x =
     (if 0 < x then arctan (y / x)
      else if x < 0 \<and> 0 \<le> y then arctan (y / x) + pi
      else if x < 0 then arctan (y / x) - pi
      else if 0 < y then pi / 2
      else if y < 0 then - pi / 2
      else 0)"

section \<open>Messages, requests and the manager's fields\<close>

type_synonym waypoint = "real list"

type_synonym rostime = nat

datatype command_mode = MODE_XPOS_YPOS_YAW_ALTITUDE

record command =
  cmd_stamp :: rostime
  cmd_x :: real
  cmd_y :: real
  cmd_F :: real
  cmd_z :: real
  cmd_mode :: command_mode

record relative_pose =
  rel_x :: real
  rel_y :: real
  rel_z :: real
  rel_F :: real

record add_waypoint_req =
  add_x :: real
  add_y :: real
  add_z :: real
  add_psi :: real
  add_index :: int

record odometry =
  position_x :: real
  position_y :: real
  position_z :: real
  orientation_w :: real
  orientation_x :: real
  orientation_y :: real
  orientation_z :: real

text \<open>What a callback sends out: publications on the two topics, log lines, and prints.\<close>

datatype emitted =
    PubCommand command
  | PubRelPose relative_pose
  | LogWarn string
  | LogInfo string
  | PrintList "waypoint list"
  | PrintText string

datatype retval = RetNone | RetInt int | RetBool bool

record manager =
  waypoint_list :: "waypoint list"
  current_waypoint_index :: int
  threshold :: real
  cyclical_path :: bool

text \<open>
  A callback's run: the fields as the callback leaves them (also when it raises half way),
  what it sent out in order, and the value it returns or the exception it raises.
\<close>

type_synonym outcome = "manager \<times> emitted list \<times> (py_error + retval)"

section \<open>The callbacks\<close>

text \<open>
  One definition per method of \<open>WaypointManager\<close> in \<^verbatim>\<open>waypoint_manager.py\<close>, under the
  method's name, with its branches in the order of the source. The request index of
  RemoveWaypoint and the clock reading used for a command's stamp are arguments.
\<close>

definition wrapWaypointIndex :: "manager \<Rightarrow> py_error + manager" where
  "wrapWaypointIndex s =
     (if cyclical_path s then
        (case py_mod (current_waypoint_index s) (int (length (waypoint_list s))) of
           Inl e \<Rightarrow> Inl e
         | Inr i \<Rightarrow> Inr (s\<lparr>current_waypoint_index := i\<rparr>))
      else if current_waypoint_index s \<ge> int (length (waypoint_list s)) then
        Inr (s\<lparr>current_waypoint_index := current_waypoint_index s - 1\<rparr>)
      else Inr s)"

text \<open>
  \<open>pubNextWaypoint\<close> reads the clock for the stamp (the argument \<open>now\<close>) and either
  publishes one command or raises before publishing; it changes no field.
\<close>

definition pubNextWaypoint :: "rostime \<Rightarrow> manager \<Rightarrow> py_error + command" where
  "pubNextWaypoint now s =
     (case py_getitem (waypoint_list s) (current_waypoint_index s) of
        Inl e \<Rightarrow> Inl e
      | Inr next_waypoint \<Rightarrow>
          (case np_item next_waypoint 0 of Inl e \<Rightarrow> Inl e | Inr x \<Rightarrow>
          (case np_item next_waypoint 1 of Inl e \<Rightarrow> Inl e | Inr y \<Rightarrow>
          (case np_item next_waypoint 2 of Inl e \<Rightarrow> Inl e | Inr F \<Rightarrow>
          (if length next_waypoint > 3 then
             (case np_item next_waypoint 3 of Inl e \<Rightarrow> Inl e | Inr z \<Rightarrow>
                Inr \<lparr>cmd_stamp = now, cmd_x = x, cmd_y = y, cmd_F = F, cmd_z = z,
                     cmd_mode = MODE_XPOS_YPOS_YAW_ALTITUDE\<rparr>)
           else
             Inr \<lparr>cmd_stamp = now, cmd_x = x, cmd_y = y, cmd_F = F, cmd_z = 0,
                  cmd_mode = MODE_XPOS_YPOS_YAW_ALTITUDE\<rparr>)))))"

definition addWaypointCallback :: "manager \<Rightarrow> add_waypoint_req \<Rightarrow> outcome" where
  "addWaypointCallback s req =
     (let new_waypoint = [add_x req, add_y req, add_z req, add_psi req];
          chosen = (if add_index req = - 1 then Some (int (length (waypoint_list s)))
                    else if add_index req > int (length (waypoint_list s)) then None
                    else Some (add_index req))
      in case chosen of
           None \<Rightarrow> (s, [LogWarn ''Waypoint Index Out of Range''], Inr RetNone)
         | Some index \<Rightarrow>
             (let s1 = s\<lparr>waypoint_list := py_insert (waypoint_list s) index new_waypoint\<rparr>;
                  s2 = (if current_waypoint_index s1 \<ge> index
                        then s1\<lparr>current_waypoint_index := current_waypoint_index s1 + 1\<rparr>
                        else s1)
              in (s2, [LogInfo ''Added New Waypoint''],
                  Inr (RetInt (int (length (waypoint_list s2)))))))"

definition removeWaypointCallback :: "rostime \<Rightarrow> manager \<Rightarrow> int \<Rightarrow> outcome" where
  "removeWaypointCallback now s index =
     (if length (waypoint_list s) = 1 then
        (s, [LogWarn ''Cannot Remove Only Waypoint''],
         Inr (RetInt (int (length (waypoint_list s)))))
      else if index \<ge> int (length (waypoint_list s)) then
        (s, [LogWarn ''Waypoint Index Out of Range''], Inr RetNone)
      else
        (case py_delitem (waypoint_list s) index of
           Inl e \<Rightarrow> (s, [], Inl e)
         | Inr wl \<Rightarrow>
             (let s1 = s\<lparr>waypoint_list := wl\<rparr> in
              if index = current_waypoint_index s1 then
                (case wrapWaypointIndex s1 of
                   Inl e \<Rightarrow> (s1, [], Inl e)
                 | Inr s2 \<Rightarrow>
                     (case pubNextWaypoint now s2 of
                        Inl e \<Rightarrow> (s2, [], Inl e)
                      | Inr c \<Rightarrow>
                          (s2, [PubCommand c], Inr (RetInt (int (length (waypoint_list s2)))))))
              else if current_waypoint_index s1 \<ge> int (length (waypoint_list s1)) then
                (let s2 = s1\<lparr>current_waypoint_index := current_waypoint_index s1 - 1\<rparr>
                 in (s2, [], Inr (RetInt (int (length (waypoint_list s2))))))
              else (s1, [], Inr (RetInt (int (length (waypoint_list s1))))))))"

definition setWaypointsFromFileCallback :: "manager \<Rightarrow> outcome" where
  "setWaypointsFromFileCallback s =
     (s, [PrintText ''set Waypoints from File (NOT IMPLEMENTED)''], Inr RetNone)"

definition listWaypoints :: "manager \<Rightarrow> outcome" where
  "listWaypoints s = (s, [PrintList (waypoint_list s)], Inr (RetBool True))"

definition odometryCallback :: "rostime \<Rightarrow> manager \<Rightarrow> odometry \<Rightarrow> outcome" where
  "odometryCallback now s msg =
     (case py_getitem (waypoint_list s) (current_waypoint_index s) of
        Inl e \<Rightarrow> (s, [], Inl e)
      | Inr current_waypoint \<Rightarrow>
          (let current_position = [position_x msg, position_y msg, - position_z msg];
               qw = orientation_w msg;
               qx = orientation_x msg;
               qy = orientation_y msg;
               qz = orientation_z msg;
               y = np_arctan2 (2 * (qw * qz + qx * qy)) (1 - 2 * (qy\<^sup>2 + qz\<^sup>2))
           in case np_sub current_position (take 3 current_waypoint) of
                Inl e \<Rightarrow> (s, [], Inl e)
              | Inr d \<Rightarrow>
                  (let error = np_linalg_norm d;
                       relativePose_msg =
                         \<lparr>rel_x = current_position ! 0, rel_y = current_position ! 1,
                          rel_z = y, rel_F = current_position ! 2\<rparr>
                   in if error < threshold s then
                        (let s1 = s\<lparr>current_waypoint_index := current_waypoint_index s + 1\<rparr>
                         in case wrapWaypointIndex s1 of
                              Inl e \<Rightarrow> (s1, [PubRelPose relativePose_msg], Inl e)
                            | Inr s2 \<Rightarrow>
                                (case pubNextWaypoint now s2 of
                                   Inl e \<Rightarrow> (s2, [PubRelPose relativePose_msg], Inl e)
                                 | Inr c \<Rightarrow>
                                     (s2, [PubRelPose relativePose_msg, PubCommand c],
                                      Inr RetNone)))
                      else (s, [PubRelPose relativePose_msg], Inr RetNone))))"

section \<open>Runs of the node\<close>

text \<open>
  The constructor keeps the configured list, threshold and cycle flag and starts at
  index 0. Afterwards the fields change only inside the callbacks. A run handles one
  request or sample after the other; an exception ends the callback that raised it
  and the node goes on with the fields as that callback left them.
\<close>

definition init_manager :: "waypoint list \<Rightarrow> real \<Rightarrow> bool \<Rightarrow> manager" where
  "init_manager wps thr cyc =
     \<lparr>waypoint_list = wps, current_waypoint_index = 0, threshold = thr, cyclical_path = cyc\<rparr>"

datatype event =
    AddWaypoint add_waypoint_req
  | RemoveWaypoint rostime int
  | SetWaypointsFromFile
  | ListWaypoints
  | Odometry rostime odometry

fun handle :: "manager \<Rightarrow> event \<Rightarrow> outcome" where
  "handle s (AddWaypoint req) = addWaypointCallback s req"
| "handle s (RemoveWaypoint now index) = removeWaypointCallback now s index"
| "handle s SetWaypointsFromFile = setWaypointsFromFileCallback s"
| "handle s ListWaypoints = listWaypoints s"
| "handle s (Odometry now msg) = odometryCallback now s msg"

definition step :: "manager \<Rightarrow> event \<Rightarrow> manager" where
  "step s ev = fst (handle s ev)"

definition run :: "manager \<Rightarrow> event list \<Rightarrow> manager" where
  "run s evs = foldl step s evs"

text \<open>
  The rest of this section is vocabulary for stating properties, not code of the node:
  the invariant on the index, the relative poses among a callback's output, the command
  that belongs to a waypoint, and the data of the specification's scenarios.
\<close>

definition index_in_range :: "manager \<Rightarrow> bool" where
  "index_in_range s \<longleftrightarrow>
     0 \<le> current_waypoint_index s
     \<and> current_waypoint_index s < int (length (waypoint_list s))
     \<and> 1 \<le> length (waypoint_list s)"

text \<open>What was published on the relative-pose topic, read off a callback's output.\<close>

fun relative_poses :: "emitted list \<Rightarrow> relative_pose list" where
  "relative_poses [] = []"
| "relative_poses (PubRelPose r # es) = r # relative_poses es"
| "relative_poses (e # es) = relative_poses es"

text \<open>The command \<open>pubNextWaypoint\<close> builds from a waypoint with three or four entries.\<close>

definition command_of :: "rostime \<Rightarrow> waypoint \<Rightarrow> command" where
  "command_of now w =
     \<lparr>cmd_stamp = now, cmd_x = w ! 0, cmd_y = w ! 1, cmd_F = w ! 2,
      cmd_z = (if length w > 3 then w ! 3 else 0), cmd_mode = MODE_XPOS_YPOS_YAW_ALTITUDE\<rparr>"

text \<open>The list of scenario A of the specification, and a manager over it.\<close>

definition scenario_list :: "waypoint list" where
  "scenario_list = [[0, 0, 10], [5, 5, 10], [10, 10, 10]]"

definition scenario_manager :: "int \<Rightarrow> bool \<Rightarrow> manager" where
  "scenario_manager i cyc =
     \<lparr>waypoint_list = scenario_list, current_waypoint_index = i, threshold = 1,
      cyclical_path = cyc\<rparr>"

definition sample_at :: "real \<Rightarrow> real \<Rightarrow> real \<Rightarrow> odometry" where
  "sample_at px py pz =
     \<lparr>position_x = px, position_y = py, position_z = pz,
      orientation_w = 1, orientation_x = 0, orientation_y = 0, orientation_z = 0\<rparr>"

section \<open>Facts about the primitives\<close>

lemma length_py_insert: "length (py_insert xs i v) = Suc (length xs)"
  by (simp add: py_insert_def Let_def)

lemma length_py_delitem:
  "py_delitem xs i = Inr ys \<Longrightarrow> Suc (length ys) = length xs"
  by (auto simp: py_delitem_def split: if_splits)

lemma py_getitem_in_range:
  "0 \<le> i \<Longrightarrow> i < int (length xs) \<Longrightarrow> py_getitem xs i = Inr (xs ! nat i)"
  by (simp add: py_getitem_def)

lemma wrapWaypointIndex_eq:
  assumes "0 \<le> current_waypoint_index s"
    and "current_waypoint_index s \<le> int (length (waypoint_list s))"
    and "1 \<le> length (waypoint_list s)"
  shows "wrapWaypointIndex s =
           Inr (s\<lparr>current_waypoint_index :=
                    (if cyclical_path s
                     then current_waypoint_index s mod int (length (waypoint_list s))
                     else if current_waypoint_index s \<ge> int (length (waypoint_list s))
                     then int (length (waypoint_list s)) - 1
                     else current_waypoint_index s)\<rparr>)"
  using assms by (auto simp: wrapWaypointIndex_def py_mod_def)

lemma wrapWaypointIndex_in_range:
  assumes "0 \<le> current_waypoint_index s"
    and "current_waypoint_index s \<le> int (length (waypoint_list s))"
    and "1 \<le> length (waypoint_list s)"
  shows "\<exists>s'. wrapWaypointIndex s = Inr s' \<and> index_in_range s'
              \<and> waypoint_list s' = waypoint_list s"
proof -
  define n where "n = int (length (waypoint_list s))"
  define c where "c = current_waypoint_index s"
  define i where "i = (if cyclical_path s then c mod n else if c \<ge> n then n - 1 else c)"
  have pos: "0 < n"
    using assms(3) unfolding n_def by (cases "waypoint_list s") simp_all
  have c: "0 \<le> c" "c \<le> n"
    using assms(1,2) unfolding n_def c_def by simp_all
  have "0 \<le> i \<and> i < n"
  proof (cases "cyclical_path s")
    case True
    then show ?thesis using pos by (simp add: i_def)
  next
    case False
    then show ?thesis using pos c by (simp add: i_def)
  qed
  then have "index_in_range (s\<lparr>current_waypoint_index := i\<rparr>)"
    using assms(3) by (simp add: index_in_range_def n_def)
  moreover have "wrapWaypointIndex s = Inr (s\<lparr>current_waypoint_index := i\<rparr>)"
    using wrapWaypointIndex_eq [OF assms] by (simp add: i_def n_def c_def)
  ultimately show ?thesis by simp
qed

section \<open>The index stays inside the list\<close>

lemma addWaypointCallback_in_range:
  assumes "index_in_range s"
  shows "index_in_range (fst (addWaypointCallback s req))"
  using assms
  by (auto simp: addWaypointCallback_def index_in_range_def Let_def length_py_insert)

lemma removeWaypointCallback_in_range:
  assumes "index_in_range s"
  shows "index_in_range (fst (removeWaypointCallback now s i))"
proof (cases "length (waypoint_list s) = 1 \<or> i \<ge> int (length (waypoint_list s))")
  case True
  then show ?thesis
    using assms by (auto simp: removeWaypointCallback_def)
next
  case False
  show ?thesis
  proof (cases "py_delitem (waypoint_list s) i")
    case (Inl e)
    then show ?thesis
      using assms False by (simp add: removeWaypointCallback_def)
  next
    case (Inr wl)
    let ?s1 = "s\<lparr>waypoint_list := wl\<rparr>"
    have len: "Suc (length wl) = length (waypoint_list s)"
      using Inr by (rule length_py_delitem)
    have two: "2 \<le> length (waypoint_list s)"
      using assms False by (auto simp: index_in_range_def)
    have pre: "0 \<le> current_waypoint_index ?s1"
      "current_waypoint_index ?s1 \<le> int (length (waypoint_list ?s1))"
      "1 \<le> length (waypoint_list ?s1)"
      using assms len two by (auto simp: index_in_range_def)
    show ?thesis
    proof (cases "i = current_waypoint_index s")
      case True
      obtain s2 where s2: "wrapWaypointIndex ?s1 = Inr s2" "index_in_range s2"
        using wrapWaypointIndex_in_range [OF pre] by blast
      show ?thesis
        using False Inr True s2
        by (simp add: removeWaypointCallback_def split: sum.splits)
    next
      case neq: False
      show ?thesis
        using False Inr neq pre assms len
        by (auto simp: removeWaypointCallback_def Let_def index_in_range_def)
    qed
  qed
qed

lemma odometryCallback_in_range:
  assumes "index_in_range s"
  shows "index_in_range (fst (odometryCallback now s msg))"
proof -
  let ?s1 = "s\<lparr>current_waypoint_index := current_waypoint_index s + 1\<rparr>"
  have pre: "0 \<le> current_waypoint_index ?s1"
    "current_waypoint_index ?s1 \<le> int (length (waypoint_list ?s1))"
    "1 \<le> length (waypoint_list ?s1)"
    using assms by (auto simp: index_in_range_def)
  obtain s2 where s2: "wrapWaypointIndex ?s1 = Inr s2" "index_in_range s2"
    using wrapWaypointIndex_in_range [OF pre] by blast
  show ?thesis
    using assms s2
    by (simp add: odometryCallback_def Let_def split: sum.splits)
qed

lemma step_in_range: "index_in_range s \<Longrightarrow> index_in_range (step s ev)"
  by (cases ev)
    (simp_all add: step_def addWaypointCallback_in_range removeWaypointCallback_in_range
      odometryCallback_in_range setWaypointsFromFileCallback_def listWaypoints_def)

lemma run_in_range: "index_in_range s \<Longrightarrow> index_in_range (run s evs)"
  unfolding run_def
  by (induction evs arbitrary: s) (simp_all add: step_in_range)

text \<open>
  Claim C1. Start from a non-empty configured list at index 0 and let any sequence of
  AddWaypoint, RemoveWaypoint, SetWaypointsFromFile and ListWaypoints requests and
  position samples be handled one after the other, whatever each returns or raises.
  In the state reached, \<open>0 \<le> CurrentIndex < len(WaypointList)\<close> and the list has at least
  one waypoint.
\<close>

theorem reachable_index_in_range:
  assumes "wps \<noteq> []"
  shows "0 \<le> current_waypoint_index (run (init_manager wps thr cyc) evs)
       \<and> current_waypoint_index (run (init_manager wps thr cyc) evs)
           < int (length (waypoint_list (run (init_manager wps thr cyc) evs)))
       \<and> 1 \<le> length (waypoint_list (run (init_manager wps thr cyc) evs))"
proof -
  have "index_in_range (init_manager wps thr cyc)"
    using assms by (cases wps) (simp_all add: index_in_range_def init_manager_def)
  then have "index_in_range (run (init_manager wps thr cyc) evs)"
    by (rule run_in_range)
  then show ?thesis
    by (simp add: index_in_range_def)
qed

theorem reachable_index_in_range_witness:
  "scenario_list \<noteq> []
   \<and> run (init_manager scenario_list 1 True)
        [Odometry 7 (sample_at 0 0 (- 10)), RemoveWaypoint 8 1,
         AddWaypoint \<lparr>add_x = 1, add_y = 1, add_z = 1, add_psi = 0, add_index = 0\<rparr>,
         ListWaypoints]
       = \<lparr>waypoint_list = [[1, 1, 1, 0], [0, 0, 10], [10, 10, 10]],
          current_waypoint_index = 2, threshold = 1, cyclical_path = True\<rparr>
   \<and> 0 \<le> current_waypoint_index (run (init_manager scenario_list 1 True)
        [Odometry 7 (sample_at 0 0 (- 10)), RemoveWaypoint 8 1,
         AddWaypoint \<lparr>add_x = 1, add_y = 1, add_z = 1, add_psi = 0, add_index = 0\<rparr>,
         ListWaypoints])
   \<and> current_waypoint_index (run (init_manager scenario_list 1 True)
        [Odometry 7 (sample_at 0 0 (- 10)), RemoveWaypoint 8 1,
         AddWaypoint \<lparr>add_x = 1, add_y = 1, add_z = 1, add_psi = 0, add_index = 0\<rparr>,
         ListWaypoints]) < 3"
proof -
  let ?evs = "[Odometry 7 (sample_at 0 0 (- 10)), RemoveWaypoint 8 1,
         AddWaypoint \<lparr>add_x = 1, add_y = 1, add_z = 1, add_psi = 0, add_index = 0\<rparr>,
         ListWaypoints]"
  have ne: "scenario_list \<noteq> []"
    by (simp add: scenario_list_def)
  have val: "run (init_manager scenario_list 1 True) ?evs
       = \<lparr>waypoint_list = [[1, 1, 1, 0], [0, 0, 10], [10, 10, 10]],
          current_waypoint_index = 2, threshold = 1, cyclical_path = True\<rparr>"
    by (simp add: run_def step_def odometryCallback_def init_manager_def sample_at_def
        scenario_list_def py_getitem_def np_sub_def np_linalg_norm_def np_arctan2_def Let_def
        wrapWaypointIndex_def py_mod_def pubNextWaypoint_def np_item_def
        removeWaypointCallback_def addWaypointCallback_def py_delitem_def py_insert_def
        listWaypoints_def)
  show ?thesis
    using reachable_index_in_range [OF ne, of 1 True ?evs] ne val by simp
qed

section \<open>The index-wrap policy\<close>

text \<open>
  Claim C3. With \<open>0 \<le> CurrentIndex \<le> len(WaypointList)\<close> and a non-empty list, the wrap
  helper returns normally and leaves the index at \<open>CurrentIndex mod len\<close> in cyclical
  mode; in non-cyclical mode an index equal to the length becomes \<open>len - 1\<close> and any
  smaller index stays as it is. No other field changes. Hence one step past the last
  waypoint goes back to index 0 in cyclical mode, and in non-cyclical mode it goes back
  to the last waypoint, every time.
\<close>

theorem wrapWaypointIndex_policy:
  assumes "0 \<le> current_waypoint_index s"
    and "current_waypoint_index s \<le> int (length (waypoint_list s))"
    and "1 \<le> length (waypoint_list s)"
  shows "wrapWaypointIndex s =
           Inr (s\<lparr>current_waypoint_index :=
                    (if cyclical_path s
                     then current_waypoint_index s mod int (length (waypoint_list s))
                     else if current_waypoint_index s \<ge> int (length (waypoint_list s))
                     then int (length (waypoint_list s)) - 1
                     else current_waypoint_index s)\<rparr>)
       \<and> wrapWaypointIndex
             (s\<lparr>current_waypoint_index := (int (length (waypoint_list s)) - 1) + 1\<rparr>) =
           Inr (s\<lparr>current_waypoint_index :=
                    (if cyclical_path s then 0 else int (length (waypoint_list s)) - 1)\<rparr>)"
proof -
  have ne: "waypoint_list s \<noteq> []"
    using assms(3) by auto
  have "wrapWaypointIndex
          (s\<lparr>current_waypoint_index := (int (length (waypoint_list s)) - 1) + 1\<rparr>) =
        Inr (s\<lparr>current_waypoint_index :=
                 (if cyclical_path s then 0 else int (length (waypoint_list s)) - 1)\<rparr>)"
    using ne by (simp add: wrapWaypointIndex_def py_mod_def)
  then show ?thesis
    using wrapWaypointIndex_eq [OF assms] by simp
qed

theorem wrapWaypointIndex_policy_witness:
  "0 \<le> current_waypoint_index (scenario_manager 3 False)
   \<and> current_waypoint_index (scenario_manager 3 False)
       \<le> int (length (waypoint_list (scenario_manager 3 False)))
   \<and> 1 \<le> length (waypoint_list (scenario_manager 3 False))
   \<and> wrapWaypointIndex (scenario_manager 3 False) = Inr (scenario_manager 2 False)
   \<and> wrapWaypointIndex (scenario_manager 3 True) = Inr (scenario_manager 0 True)"
  using wrapWaypointIndex_policy [of "scenario_manager 3 False"]
    wrapWaypointIndex_policy [of "scenario_manager 3 True"]
  by (simp add: scenario_manager_def scenario_list_def)

section \<open>Waypoints keep their three entries\<close>

text \<open>
  AddWaypoint stores four entries and nothing else writes a waypoint, so a list configured
  with at least three entries per waypoint stays so in every run.
\<close>

lemma set_py_insert: "set (py_insert xs i v) \<subseteq> insert v (set xs)"
  by (auto simp: py_insert_def Let_def dest: in_set_takeD in_set_dropD)

lemma set_py_delitem:
  assumes "py_delitem xs i = Inr ys"
  shows "set ys \<subseteq> set xs"
  using assms
  by (auto simp: py_delitem_def split: if_splits dest: in_set_takeD in_set_dropD)

lemma wrapWaypointIndex_list:
  "wrapWaypointIndex s = Inr s' \<Longrightarrow> waypoint_list s' = waypoint_list s"
  by (auto simp: wrapWaypointIndex_def split: if_splits sum.splits)

lemma step_waypoint_entries:
  assumes "\<forall>w \<in> set (waypoint_list s). 3 \<le> length w"
  shows "\<forall>w \<in> set (waypoint_list (step s ev)). 3 \<le> length w"
proof (cases ev)
  case (AddWaypoint req)
  let ?w = "[add_x req, add_y req, add_z req, add_psi req]"
  have "set (waypoint_list (step s ev))
          \<subseteq> insert ?w (set (waypoint_list s))"
    using set_py_insert [of "waypoint_list s" _ ?w]
    by (auto simp: AddWaypoint step_def addWaypointCallback_def Let_def
        split: option.splits if_splits)
  then show ?thesis
    using assms by fastforce
next
  case (RemoveWaypoint now i)
  have "set (waypoint_list (step s ev)) \<subseteq> set (waypoint_list s)"
    by (auto simp: RemoveWaypoint step_def removeWaypointCallback_def Let_def
        split: sum.splits if_splits
        dest!: set_py_delitem wrapWaypointIndex_list)
  then show ?thesis
    using assms by blast
next
  case SetWaypointsFromFile
  then show ?thesis
    using assms by (simp add: step_def setWaypointsFromFileCallback_def)
next
  case ListWaypoints
  then show ?thesis
    using assms by (simp add: step_def listWaypoints_def)
next
  case (Odometry now msg)
  have "waypoint_list (step s ev) = waypoint_list s"
    by (auto simp: Odometry step_def odometryCallback_def Let_def
        split: sum.splits dest!: wrapWaypointIndex_list)
  then show ?thesis
    using assms by simp
qed

lemma run_waypoint_entries:
  assumes "\<forall>w \<in> set (waypoint_list s). 3 \<le> length w"
  shows "\<forall>w \<in> set (waypoint_list (run s evs)). 3 \<le> length w"
  using assms unfolding run_def
proof (induction evs arbitrary: s)
  case Nil
  then show ?case by simp
next
  case (Cons ev evs)
  then show ?case
    using step_waypoint_entries [of s ev] by simp
qed

section \<open>Removing waypoints\<close>

lemma take3_nth: "3 \<le> length (w :: 'a list) \<Longrightarrow> take 3 w = [w ! 0, w ! 1, w ! 2]"
  by (cases w; cases "tl w"; cases "tl (tl w)") (auto simp: numeral_3_eq_3)

lemma pubNextWaypoint_eq:
  assumes "0 \<le> current_waypoint_index s"
    and "current_waypoint_index s < int (length (waypoint_list s))"
    and "3 \<le> length (waypoint_list s ! nat (current_waypoint_index s))"
  shows "pubNextWaypoint now s =
           Inr (command_of now (waypoint_list s ! nat (current_waypoint_index s)))"
  using assms
  by (auto simp: pubNextWaypoint_def py_getitem_in_range np_item_def command_of_def)

text \<open>
  Claim C7. On a list of exactly one waypoint, RemoveWaypoint takes its refusal branch
  for any index: it warns "Cannot Remove Only Waypoint", publishes nothing, and leaves
  the list and the index as they were. (The value handed back is the unchanged length 1.)
\<close>

theorem removeWaypointCallback_only_waypoint:
  assumes "length (waypoint_list s) = 1"
  shows "removeWaypointCallback now s i =
           (s, [LogWarn ''Cannot Remove Only Waypoint''], Inr (RetInt 1))"
  using assms by (simp add: removeWaypointCallback_def)

theorem removeWaypointCallback_only_waypoint_witness:
  "length (waypoint_list (init_manager [[0, 0, 10]] 5 True)) = 1
   \<and> removeWaypointCallback 3 (init_manager [[0, 0, 10]] 5 True) 0 =
       (init_manager [[0, 0, 10]] 5 True, [LogWarn ''Cannot Remove Only Waypoint''],
        Inr (RetInt 1))
   \<and> removeWaypointCallback 3 (init_manager [[0, 0, 10]] 5 True) (- 1) =
       (init_manager [[0, 0, 10]] 5 True, [LogWarn ''Cannot Remove Only Waypoint''],
        Inr (RetInt 1))
   \<and> removeWaypointCallback 3 (init_manager [[0, 0, 10]] 5 True) 7 =
       (init_manager [[0, 0, 10]] 5 True, [LogWarn ''Cannot Remove Only Waypoint''],
        Inr (RetInt 1))"
  using removeWaypointCallback_only_waypoint [of "init_manager [[0, 0, 10]] 5 True" 3 0]
    removeWaypointCallback_only_waypoint [of "init_manager [[0, 0, 10]] 5 True" 3 "- 1"]
    removeWaypointCallback_only_waypoint [of "init_manager [[0, 0, 10]] 5 True" 3 7]
  by (simp add: init_manager_def)

text \<open>
  Claim C4. In a state with the index inside a list of at least two waypoints, each with
  at least three entries, RemoveWaypoint at the current index returns the new length,
  deletes exactly the waypoint at that index, leaves the index where it is unless it was
  the last one (then it becomes 0 in cyclical mode and the new last index otherwise), and
  publishes one command built from the waypoint the index now refers to.
\<close>

theorem removeWaypointCallback_current:
  fixes s :: manager and now :: rostime
  defines "wl \<equiv> take (nat (current_waypoint_index s)) (waypoint_list s)
                @ drop (Suc (nat (current_waypoint_index s))) (waypoint_list s)"
  defines "i \<equiv> (if current_waypoint_index s < int (length wl) then current_waypoint_index s
                  else if cyclical_path s then 0 else int (length wl) - 1)"
  assumes "index_in_range s"
    and "2 \<le> length (waypoint_list s)"
    and "\<forall>w \<in> set (waypoint_list s). 3 \<le> length w"
  shows "removeWaypointCallback now s (current_waypoint_index s) =
           (s\<lparr>waypoint_list := wl, current_waypoint_index := i\<rparr>,
            [PubCommand (command_of now (wl ! nat i))],
            Inr (RetInt (int (length (waypoint_list s)) - 1)))
       \<and> 0 \<le> i \<and> i < int (length wl)"
proof -
  let ?c = "current_waypoint_index s"
  let ?s1 = "s\<lparr>waypoint_list := wl\<rparr>"
  let ?s2 = "s\<lparr>waypoint_list := wl, current_waypoint_index := i\<rparr>"
  have c: "0 \<le> ?c" "?c < int (length (waypoint_list s))"
    using assms(3) by (simp_all add: index_in_range_def)
  have len: "int (length wl) = int (length (waypoint_list s)) - 1"
    using c by (simp add: wl_def)
  have del: "py_delitem (waypoint_list s) ?c = Inr wl"
    using c by (simp add: py_delitem_def wl_def)
  have ne: "wl \<noteq> []"
    using len assms(4) by auto
  have wrap: "wrapWaypointIndex ?s1 = Inr ?s2"
  proof (cases "?c < int (length wl)")
    case True
    then show ?thesis
      using c ne by (simp add: wrapWaypointIndex_def py_mod_def i_def)
  next
    case False
    then have "?c = int (length wl)" using c len by linarith
    then show ?thesis
      using ne by (simp add: wrapWaypointIndex_def py_mod_def i_def)
  qed
  have i: "0 \<le> i" "i < int (length wl)"
    using c len assms(4) by (auto simp: i_def)
  have "set wl \<subseteq> set (waypoint_list s)"
    unfolding wl_def using set_take_subset set_drop_subset by fastforce
  moreover have "wl ! nat i \<in> set wl"
    using i by simp
  ultimately have "3 \<le> length (wl ! nat i)"
    using assms(5) by blast
  then have pub: "pubNextWaypoint now ?s2 = Inr (command_of now (wl ! nat i))"
    using pubNextWaypoint_eq [of ?s2 now] i by simp
  have one: "length (waypoint_list s) \<noteq> 1"
    using assms(4) by simp
  have "removeWaypointCallback now s ?c =
           (?s2, [PubCommand (command_of now (wl ! nat i))],
            Inr (RetInt (int (length (waypoint_list s)) - 1)))"
    unfolding removeWaypointCallback_def
    using c one by (simp add: del wrap pub len)
  then show ?thesis
    using i by simp
qed

theorem removeWaypointCallback_current_witness:
  "index_in_range (scenario_manager 1 True)
   \<and> 2 \<le> length (waypoint_list (scenario_manager 1 True))
   \<and> list_all (\<lambda>w. 3 \<le> length w) (waypoint_list (scenario_manager 1 True))
   \<and> removeWaypointCallback 8 (scenario_manager 1 True) 1 =
       (\<lparr>waypoint_list = [[0, 0, 10], [10, 10, 10]], current_waypoint_index = 1,
         threshold = 1, cyclical_path = True\<rparr>,
        [PubCommand \<lparr>cmd_stamp = 8, cmd_x = 10, cmd_y = 10, cmd_F = 10, cmd_z = 0,
                     cmd_mode = MODE_XPOS_YPOS_YAW_ALTITUDE\<rparr>],
        Inr (RetInt 2))"
proof -
  have h1: "index_in_range (scenario_manager 1 True)"
    by (simp add: index_in_range_def scenario_manager_def scenario_list_def)
  have h2: "2 \<le> length (waypoint_list (scenario_manager 1 True))"
    by (simp add: scenario_manager_def scenario_list_def)
  have h3: "\<forall>w \<in> set (waypoint_list (scenario_manager 1 True)). 3 \<le> length w"
    by (simp add: scenario_manager_def scenario_list_def)
  show ?thesis
    using removeWaypointCallback_current [OF h1 h2 h3, of 8] h1 h2 h3
    by (simp add: scenario_manager_def scenario_list_def command_of_def)
qed

text \<open>
  Claim C10. In a state with the index inside a list of \<open>n \<ge> 2\<close> waypoints, RemoveWaypoint
  with an index \<open>i\<close> between \<open>-n\<close> and \<open>-1\<close> does not warn about the range: it deletes the
  waypoint at position \<open>n + i\<close> and returns the new length \<open>n - 1\<close>. The index is moved
  back by one only when it would otherwise fall off the shorter list; nothing is published.
\<close>

theorem removeWaypointCallback_negative_index:
  fixes s :: manager and now :: rostime and i :: int
  defines "k \<equiv> nat (int (length (waypoint_list s)) + i)"
  assumes "index_in_range s"
    and "2 \<le> length (waypoint_list s)"
    and "- int (length (waypoint_list s)) \<le> i"
    and "i \<le> - 1"
  shows "removeWaypointCallback now s i =
           (s\<lparr>waypoint_list := take k (waypoint_list s) @ drop (Suc k) (waypoint_list s),
              current_waypoint_index :=
                (if current_waypoint_index s \<ge> int (length (waypoint_list s)) - 1
                 then current_waypoint_index s - 1 else current_waypoint_index s)\<rparr>,
            [], Inr (RetInt (int (length (waypoint_list s)) - 1)))
       \<and> k < length (waypoint_list s)"
proof -
  define wl where "wl = take k (waypoint_list s) @ drop (Suc k) (waypoint_list s)"
  have c: "0 \<le> current_waypoint_index s"
    using assms(2) by (simp add: index_in_range_def)
  have k: "k < length (waypoint_list s)"
    using assms(4,5) by (simp add: k_def)
  have del: "py_delitem (waypoint_list s) i = Inr wl"
    using assms(4,5) by (simp add: py_delitem_def k_def wl_def)
  have len: "int (length wl) = int (length (waypoint_list s)) - 1"
    using k by (simp add: wl_def)
  have neq: "i \<noteq> current_waypoint_index s"
    using c assms(5) by simp
  have small: "\<not> i \<ge> int (length (waypoint_list s))"
    using assms(5) by simp
  have one: "length (waypoint_list s) \<noteq> 1"
    using assms(3) by simp
  have "removeWaypointCallback now s i =
           (s\<lparr>waypoint_list := wl,
              current_waypoint_index :=
                (if current_waypoint_index s \<ge> int (length (waypoint_list s)) - 1
                 then current_waypoint_index s - 1 else current_waypoint_index s)\<rparr>,
            [], Inr (RetInt (int (length (waypoint_list s)) - 1)))"
    unfolding removeWaypointCallback_def
    using one small neq by (simp add: del len Let_def)
  then show ?thesis
    using k by (simp add: wl_def)
qed

theorem removeWaypointCallback_negative_index_witness:
  "index_in_range (scenario_manager 2 True)
   \<and> 2 \<le> length (waypoint_list (scenario_manager 2 True))
   \<and> - int (length (waypoint_list (scenario_manager 2 True))) \<le> - 2
   \<and> (- 2 :: int) \<le> - 1
   \<and> removeWaypointCallback 8 (scenario_manager 2 True) (- 2) =
       (\<lparr>waypoint_list = [[0, 0, 10], [10, 10, 10]], current_waypoint_index = 1,
         threshold = 1, cyclical_path = True\<rparr>, [], Inr (RetInt 2))"
proof -
  have h1: "index_in_range (scenario_manager 2 True)"
    by (simp add: index_in_range_def scenario_manager_def scenario_list_def)
  have h2: "2 \<le> length (waypoint_list (scenario_manager 2 True))"
    by (simp add: scenario_manager_def scenario_list_def)
  have h3: "- int (length (waypoint_list (scenario_manager 2 True))) \<le> - 2"
    by (simp add: scenario_manager_def scenario_list_def)
  have h4: "(- 2 :: int) \<le> - 1"
    by simp
  show ?thesis
    using removeWaypointCallback_negative_index [OF h1 h2 h3 h4, of 8] h1 h2 h3
    by (simp add: scenario_manager_def scenario_list_def)
qed

section \<open>Adding waypoints\<close>

lemma addWaypointCallback_too_large:
  assumes "add_index req > int (length (waypoint_list s))"
  shows "addWaypointCallback s req =
           (s, [LogWarn ''Waypoint Index Out of Range''], Inr RetNone)"
  using assms by (simp add: addWaypointCallback_def)

lemma addWaypointCallback_accepts:
  assumes "add_index req \<le> int (length (waypoint_list s))"
  shows "\<exists>s'. addWaypointCallback s req =
           (s', [LogInfo ''Added New Waypoint''],
            Inr (RetInt (int (length (waypoint_list s)) + 1)))"
  using assms by (simp add: addWaypointCallback_def Let_def length_py_insert)

text \<open>
  Claim C6. Take a state with the index inside the list and an AddWaypoint call that
  returns a length. If the request index is not the sentinel and is at most CurrentIndex,
  CurrentIndex grows by exactly one; if it is the sentinel \<open>-1\<close> or greater than
  CurrentIndex, CurrentIndex is unchanged. The value returned is the new list length,
  one more than before. For a request index from 0 to the length, and for the sentinel,
  the new waypoint sits at that position (at the end for the sentinel) and CurrentIndex
  refers to the same waypoint as before the call.
\<close>

theorem addWaypointCallback_bookkeeping:
  assumes "index_in_range s"
    and "addWaypointCallback s req = (s', out, Inr (RetInt n))"
  shows "(add_index req \<noteq> - 1 \<and> add_index req \<le> current_waypoint_index s
            \<longrightarrow> current_waypoint_index s' = current_waypoint_index s + 1)
       \<and> (add_index req = - 1 \<or> add_index req > current_waypoint_index s
            \<longrightarrow> current_waypoint_index s' = current_waypoint_index s)
       \<and> n = int (length (waypoint_list s'))
       \<and> n = int (length (waypoint_list s)) + 1
       \<and> (0 \<le> add_index req \<longrightarrow>
            waypoint_list s' =
              take (nat (add_index req)) (waypoint_list s)
              @ [add_x req, add_y req, add_z req, add_psi req]
              # drop (nat (add_index req)) (waypoint_list s))
       \<and> (add_index req = - 1 \<longrightarrow>
            waypoint_list s' =
              waypoint_list s @ [[add_x req, add_y req, add_z req, add_psi req]])
       \<and> (0 \<le> add_index req \<or> add_index req = - 1 \<longrightarrow>
            waypoint_list s' ! nat (current_waypoint_index s') =
              waypoint_list s ! nat (current_waypoint_index s))"
proof -
  let ?wl = "waypoint_list s"
  let ?c = "current_waypoint_index s"
  let ?w = "[add_x req, add_y req, add_z req, add_psi req]"
  have c: "0 \<le> ?c" "?c < int (length ?wl)"
    using assms(1) by (simp_all add: index_in_range_def)
  show ?thesis
  proof (cases "add_index req = - 1")
    case True
    have "py_insert ?wl (int (length ?wl)) ?w = ?wl @ [?w]"
      by (simp add: py_insert_def Let_def)
    then have "s' = s\<lparr>waypoint_list := ?wl @ [?w]\<rparr>" "n = int (length ?wl) + 1"
      using assms(2) True c by (simp_all add: addWaypointCallback_def Let_def)
    moreover have "nat ?c < length ?wl"
      using c by simp
    ultimately show ?thesis
      using True by (simp add: nth_append)
  next
    case False
    then have le: "add_index req \<le> int (length ?wl)"
      using assms(2) by (auto simp: addWaypointCallback_def split: if_splits)
    show ?thesis
    proof (cases "0 \<le> add_index req")
      case nonneg: True
      let ?k = "nat (add_index req)"
      have k: "?k \<le> length ?wl" "int ?k = add_index req"
        using le nonneg by simp_all
      have ins: "py_insert ?wl (add_index req) ?w = take ?k ?wl @ ?w # drop ?k ?wl"
        using le nonneg by (simp add: py_insert_def min_def Let_def)
      show ?thesis
      proof (cases "add_index req \<le> ?c")
        case True
        then have res: "s' = s\<lparr>waypoint_list := take ?k ?wl @ ?w # drop ?k ?wl,
                              current_waypoint_index := ?c + 1\<rparr>"
          "n = int (length ?wl) + 1"
          using assms(2) False le ins k
          by (simp_all add: addWaypointCallback_def Let_def)
        have "nat (?c + 1) = Suc (nat ?c)" "?k \<le> nat ?c"
          using c True nonneg by simp_all
        then have "(take ?k ?wl @ ?w # drop ?k ?wl) ! nat (?c + 1) = ?wl ! nat ?c"
          using k c by (simp add: nth_append min_def Suc_diff_le)
        moreover have "add_index req \<noteq> - 1" "\<not> add_index req > ?c"
          using nonneg True by simp_all
        ultimately show ?thesis
          using res by simp
      next
        case gt: False
        then have res: "s' = s\<lparr>waypoint_list := take ?k ?wl @ ?w # drop ?k ?wl\<rparr>"
          "n = int (length ?wl) + 1"
          using assms(2) False le ins k
          by (simp_all add: addWaypointCallback_def Let_def)
        have "nat ?c < ?k"
          using c gt nonneg by simp
        then have "(take ?k ?wl @ ?w # drop ?k ?wl) ! nat ?c = ?wl ! nat ?c"
          using k by (simp add: nth_append min_def)
        moreover have "add_index req \<noteq> - 1" "add_index req > ?c"
          using nonneg gt by simp_all
        ultimately show ?thesis
          using res by simp
      qed
    next
      case neg: False
      then have "add_index req \<le> ?c"
        using c by simp
      then have "current_waypoint_index s' = ?c + 1"
        "n = int (length (waypoint_list s'))" "n = int (length ?wl) + 1"
        using assms(2) False le
        by (auto simp: addWaypointCallback_def Let_def length_py_insert)
      then show ?thesis
        using neg False c by simp
    qed
  qed
qed

theorem addWaypointCallback_bookkeeping_witness:
  "index_in_range (scenario_manager 0 True)
   \<and> addWaypointCallback (scenario_manager 0 True)
         \<lparr>add_x = 1, add_y = 1, add_z = 1, add_psi = 0, add_index = 0\<rparr> =
       (\<lparr>waypoint_list = [[1, 1, 1, 0], [0, 0, 10], [5, 5, 10], [10, 10, 10]],
         current_waypoint_index = 1, threshold = 1, cyclical_path = True\<rparr>,
        [LogInfo ''Added New Waypoint''], Inr (RetInt 4))
   \<and> [[1, 1, 1, 0], [0, 0, 10], [5, 5, 10], [10, 10, 10 :: real]] ! nat 1
       = waypoint_list (scenario_manager 0 True) ! nat 0"
proof -
  let ?req = "\<lparr>add_x = 1, add_y = 1, add_z = 1, add_psi = 0, add_index = 0\<rparr>"
  let ?s' = "\<lparr>waypoint_list = [[1, 1, 1, 0], [0, 0, 10], [5, 5, 10], [10, 10, 10]],
         current_waypoint_index = 1, threshold = 1, cyclical_path = True\<rparr>"
  have h1: "index_in_range (scenario_manager 0 True)"
    by (simp add: index_in_range_def scenario_manager_def scenario_list_def)
  have h2: "addWaypointCallback (scenario_manager 0 True) ?req =
       (?s', [LogInfo ''Added New Waypoint''], Inr (RetInt 4))"
    by (simp add: addWaypointCallback_def scenario_manager_def scenario_list_def
        py_insert_def Let_def)
  show ?thesis
    using addWaypointCallback_bookkeeping [OF h1 h2] h1 h2
    by (simp add: scenario_manager_def)
qed

text \<open>
  Claim C5, at a request index below the sentinel. On the three-waypoint list with
  CurrentIndex 0, AddWaypoint with index \<open>-2\<close> is not refused: the waypoint is inserted
  (at position 1, counted from the end), CurrentIndex becomes 1 and now refers to the
  new waypoint, "Added New Waypoint" is logged and the length 4 is returned.
\<close>

theorem addWaypointCallback_below_sentinel:
  "addWaypointCallback (scenario_manager 0 True)
     \<lparr>add_x = 1, add_y = 1, add_z = 1, add_psi = 0, add_index = - 2\<rparr> =
   (\<lparr>waypoint_list = [[0, 0, 10], [1, 1, 1, 0], [5, 5, 10], [10, 10, 10]],
     current_waypoint_index = 1, threshold = 1, cyclical_path = True\<rparr>,
    [LogInfo ''Added New Waypoint''], Inr (RetInt 4))"
  by (simp add: addWaypointCallback_def scenario_manager_def scenario_list_def
      py_insert_def Let_def)

section \<open>Listing waypoints\<close>

text \<open>
  Claim C9, on the three-waypoint list. ListWaypoints leaves the list and the index as
  they are and does not raise, but what it returns is the constant \<open>True\<close>; the list goes
  to standard output only.
\<close>

theorem listWaypoints_returns_True:
  "listWaypoints (scenario_manager 0 True) =
     (scenario_manager 0 True, [PrintList scenario_list], Inr (RetBool True))"
  by (simp add: listWaypoints_def scenario_manager_def)

section \<open>The yaw formula\<close>

text \<open>
  \<open>np_arctan2\<close> gives back the angle of a point on the unit circle, so for the
  orientation of a rotation by \<open>t\<close> about the vertical axis, \<open>(cos (t/2), 0, 0, sin (t/2))\<close>,
  the formula of \<open>odometryCallback\<close> yields \<open>t\<close>.
\<close>

lemma cos_nonpos_far:
  assumes "pi / 2 \<le> t" "t \<le> pi"
  shows "cos t \<le> 0"
proof -
  have "cos t \<le> cos (pi / 2)"
    using assms by (intro cos_monotone_0_pi_le) simp_all
  then show ?thesis by simp
qed

lemma cos_pos_range:
  assumes "- pi < t" "t \<le> pi" "0 < cos t"
  shows "- (pi / 2) < t \<and> t < pi / 2"
proof -
  have "\<not> pi / 2 \<le> t"
    using cos_nonpos_far [of t] assms by auto
  moreover have "\<not> t \<le> - (pi / 2)"
    using cos_nonpos_far [of "- t"] assms by auto
  ultimately show ?thesis by simp
qed

lemma cos_zero_range:
  assumes "- pi < t" "t \<le> pi" "cos t = 0"
  shows "t = pi / 2 \<or> t = - (pi / 2)"
proof (cases "0 \<le> t")
  case True
  have "t = pi / 2"
  proof (rule cos_inj_pi)
    show "0 \<le> t" by (rule True)
    show "t \<le> pi" by (rule assms(2))
    show "0 \<le> pi / 2" by simp
    show "pi / 2 \<le> pi" by simp
    show "cos t = cos (pi / 2)" unfolding assms(3) by simp
  qed
  then show ?thesis ..
next
  case False
  have "- t = pi / 2"
  proof (rule cos_inj_pi)
    show "0 \<le> - t" using False by linarith
    show "- t \<le> pi" using assms(1) by linarith
    show "0 \<le> pi / 2" by simp
    show "pi / 2 \<le> pi" by simp
    show "cos (- t) = cos (pi / 2)" unfolding cos_minus assms(3) by simp
  qed
  then have "t = - (pi / 2)" by linarith
  then show ?thesis ..
qed

lemma arctan_tan_shift1:
  assumes "pi / 2 < t" "t \<le> pi"
  shows "arctan (sin t / cos t) + pi = t"
proof -
  have "tan t = tan (t - pi)"
    using tan_periodic_pi [of "t - pi"] by simp
  moreover have "arctan (tan (t - pi)) = t - pi"
    using assms by (intro arctan_tan) simp_all
  ultimately show ?thesis by (simp add: tan_def)
qed

lemma arctan_tan_shift2:
  assumes "- pi < t" "t < - (pi / 2)"
  shows "arctan (sin t / cos t) - pi = t"
proof -
  have "tan t = tan (t + pi)"
    by simp
  moreover have "arctan (tan (t + pi)) = t + pi"
    using assms by (intro arctan_tan) simp_all
  ultimately show ?thesis by (simp add: tan_def)
qed

lemma np_arctan2_sin_cos:
  assumes "- pi < t" "t \<le> pi"
  shows "np_arctan2 (sin t) (cos t) = t"
proof -
  consider "0 < cos t" | "cos t < 0" "0 \<le> sin t" | "cos t < 0" "sin t < 0" | "cos t = 0"
    by linarith
  then show ?thesis
  proof cases
    case 1
    then have "arctan (tan t) = t"
      using cos_pos_range [OF assms] by (intro arctan_tan) simp_all
    then show ?thesis using 1 by (simp add: np_arctan2_def tan_def)
  next
    case 2
    have "\<not> t \<le> pi / 2"
    proof
      assume le: "t \<le> pi / 2"
      show False
      proof (cases "0 \<le> t")
        case True
        then have "0 \<le> cos t" using le by (intro cos_ge_zero) simp_all
        then show False using 2 by simp
      next
        case False
        then have "- pi / 2 \<le> t \<or> t < - pi / 2" by linarith
        then show False
        proof
          assume "- pi / 2 \<le> t"
          then have "0 \<le> cos t" using le by (intro cos_ge_zero) simp_all
          then show False using 2 by simp
        next
          assume "t < - pi / 2"
          have "0 < sin (- t)" using False assms by (intro sin_gt_zero) simp_all
          then show False using 2 by simp
        qed
      qed
    qed
    then show ?thesis
      using 2 arctan_tan_shift1 [of t] assms by (simp add: np_arctan2_def)
  next
    case 3
    have "\<not> - (pi / 2) \<le> t"
    proof
      assume ge: "- (pi / 2) \<le> t"
      show False
      proof (cases "0 \<le> t")
        case True
        then have "0 \<le> sin t" using assms by (intro sin_ge_zero) simp_all
        then show False using 3 by simp
      next
        case False
        then have "0 \<le> cos t" using ge by (intro cos_ge_zero) simp_all
        then show False using 3 by simp
      qed
    qed
    then show ?thesis
      using 3 arctan_tan_shift2 [of t] assms by (simp add: np_arctan2_def)
  next
    case 4
    from cos_zero_range [OF assms 4] show ?thesis
    proof
      assume t: "t = pi / 2"
      have "np_arctan2 (sin (pi / 2)) (cos (pi / 2)) = pi / 2"
        by (simp add: np_arctan2_def)
      then show ?thesis unfolding t .
    next
      assume t: "t = - (pi / 2)"
      have "np_arctan2 (sin (- (pi / 2))) (cos (- (pi / 2))) = - (pi / 2)"
        by (simp add: np_arctan2_def)
      then show ?thesis unfolding t .
    qed
  qed
qed

lemma yaw_of_rotation_about_vertical:
  assumes "- pi < t" "t \<le> pi"
  shows "np_arctan2 (2 * (cos (t / 2) * sin (t / 2) + 0 * 0)) (1 - 2 * (0\<^sup>2 + (sin (t / 2))\<^sup>2)) = t"
proof -
  have "2 * (cos (t / 2) * sin (t / 2) + 0 * 0) = sin t"
    using sin_double [of "t / 2"] by simp
  moreover have "1 - 2 * (0\<^sup>2 + (sin (t / 2))\<^sup>2) = cos t"
    using cos_double_sin [of "t / 2"] by simp
  ultimately show ?thesis
    using np_arctan2_sin_cos [OF assms] by simp
qed

section \<open>Position samples\<close>

lemma np_sub_position:
  assumes "3 \<le> length w"
  shows "np_sub [px, py, pz] (take 3 w) = Inr [px - w ! 0, py - w ! 1, pz - w ! 2]"
  using assms by (simp add: take3_nth np_sub_def)

lemma np_linalg_norm3:
  "np_linalg_norm [a, b, c] = sqrt (a\<^sup>2 + b\<^sup>2 + c\<^sup>2)"
  by (simp add: np_linalg_norm_def)

lemma odometryCallback_unfold:
  assumes "0 \<le> current_waypoint_index s"
    and "current_waypoint_index s < int (length (waypoint_list s))"
    and "3 \<le> length (waypoint_list s ! nat (current_waypoint_index s))"
  shows "odometryCallback now s msg =
     (let w = waypoint_list s ! nat (current_waypoint_index s);
          rel = \<lparr>rel_x = position_x msg, rel_y = position_y msg,
                 rel_z = np_arctan2
                           (2 * (orientation_w msg * orientation_z msg
                                 + orientation_x msg * orientation_y msg))
                           (1 - 2 * ((orientation_y msg)\<^sup>2 + (orientation_z msg)\<^sup>2)),
                 rel_F = - position_z msg\<rparr>
      in if sqrt ((position_x msg - w ! 0)\<^sup>2 + (position_y msg - w ! 1)\<^sup>2
                  + (- position_z msg - w ! 2)\<^sup>2) < threshold s
         then (case wrapWaypointIndex
                      (s\<lparr>current_waypoint_index := current_waypoint_index s + 1\<rparr>) of
                 Inl e \<Rightarrow> (s\<lparr>current_waypoint_index := current_waypoint_index s + 1\<rparr>,
                           [PubRelPose rel], Inl e)
               | Inr s2 \<Rightarrow>
                   (case pubNextWaypoint now s2 of
                      Inl e \<Rightarrow> (s2, [PubRelPose rel], Inl e)
                    | Inr c \<Rightarrow> (s2, [PubRelPose rel, PubCommand c], Inr RetNone)))
         else (s, [PubRelPose rel], Inr RetNone))"
  unfolding odometryCallback_def
  using assms
  by (simp add: py_getitem_in_range np_sub_position np_linalg_norm3 Let_def)

text \<open>
  Claim C2. Take a state with the index inside the list and every waypoint of at least
  three entries, and a position sample. Let the distance be the Euclidean distance
  between \<open>(x, y, -z)\<close> of the sample and the first three entries of the waypoint at
  CurrentIndex. If it is below the threshold, CurrentIndex becomes the next index, or,
  past the end, 0 in cyclical mode and the last index otherwise, and after the relative
  pose one command built from the waypoint at the new index is published. If it is at
  least the threshold, the state is unchanged and only the relative pose is published.
\<close>

theorem odometryCallback_advance:
  fixes s :: manager and now :: rostime and msg :: odometry
  defines "w \<equiv> waypoint_list s ! nat (current_waypoint_index s)"
  defines "err \<equiv> sqrt ((position_x msg - w ! 0)\<^sup>2 + (position_y msg - w ! 1)\<^sup>2
                       + (- position_z msg - w ! 2)\<^sup>2)"
    and "i \<equiv> (if current_waypoint_index s + 1 < int (length (waypoint_list s))
               then current_waypoint_index s + 1
               else if cyclical_path s then 0 else int (length (waypoint_list s)) - 1)"
    and "rel \<equiv> \<lparr>rel_x = position_x msg, rel_y = position_y msg,
                 rel_z = np_arctan2
                           (2 * (orientation_w msg * orientation_z msg
                                 + orientation_x msg * orientation_y msg))
                           (1 - 2 * ((orientation_y msg)\<^sup>2 + (orientation_z msg)\<^sup>2)),
                 rel_F = - position_z msg\<rparr>"
  assumes "index_in_range s"
    and "\<forall>v \<in> set (waypoint_list s). 3 \<le> length v"
  shows "(err < threshold s \<longrightarrow>
            odometryCallback now s msg =
              (s\<lparr>current_waypoint_index := i\<rparr>,
               [PubRelPose rel, PubCommand (command_of now (waypoint_list s ! nat i))],
               Inr RetNone))
       \<and> (err \<ge> threshold s \<longrightarrow>
            odometryCallback now s msg = (s, [PubRelPose rel], Inr RetNone))"
proof -
  let ?c = "current_waypoint_index s"
  let ?s1 = "s\<lparr>current_waypoint_index := ?c + 1\<rparr>"
  let ?s2 = "s\<lparr>current_waypoint_index := i\<rparr>"
  have c: "0 \<le> ?c" "?c < int (length (waypoint_list s))"
    using assms(5) by (simp_all add: index_in_range_def)
  have ne: "waypoint_list s \<noteq> []"
    using c by auto
  have "w \<in> set (waypoint_list s)"
    using c by (simp add: w_def)
  then have w3: "3 \<le> length (waypoint_list s ! nat ?c)"
    using assms(6) by (simp add: w_def)
  have wrap: "wrapWaypointIndex ?s1 = Inr ?s2"
  proof (cases "?c + 1 < int (length (waypoint_list s))")
    case True
    then show ?thesis
      using c ne by (simp add: wrapWaypointIndex_def py_mod_def i_def)
  next
    case False
    then have "?c + 1 = int (length (waypoint_list s))" using c by linarith
    then show ?thesis
      using ne by (simp add: wrapWaypointIndex_def py_mod_def i_def)
  qed
  have i: "0 \<le> i" "i < int (length (waypoint_list s))"
    using c by (auto simp: i_def)
  then have "waypoint_list s ! nat i \<in> set (waypoint_list s)"
    by simp
  then have "3 \<le> length (waypoint_list s ! nat i)"
    using assms(6) by blast
  then have pub: "pubNextWaypoint now ?s2 = Inr (command_of now (waypoint_list s ! nat i))"
    using pubNextWaypoint_eq [of ?s2 now] i by simp
  show ?thesis
    unfolding odometryCallback_unfold [OF c w3]
    by (simp add: wrap pub Let_def w_def err_def rel_def)
qed

theorem odometryCallback_advance_witness:
  "index_in_range (scenario_manager 0 True)
   \<and> list_all (\<lambda>v. 3 \<le> length v) (waypoint_list (scenario_manager 0 True))
   \<and> odometryCallback 7 (scenario_manager 0 True) (sample_at 0 0 (- 10)) =
       (scenario_manager 1 True,
        [PubRelPose \<lparr>rel_x = 0, rel_y = 0, rel_z = 0, rel_F = 10\<rparr>,
         PubCommand \<lparr>cmd_stamp = 7, cmd_x = 5, cmd_y = 5, cmd_F = 10, cmd_z = 0,
                     cmd_mode = MODE_XPOS_YPOS_YAW_ALTITUDE\<rparr>],
        Inr RetNone)
   \<and> odometryCallback 7 (scenario_manager 0 True) (sample_at 0 0 (- 12)) =
       (scenario_manager 0 True,
        [PubRelPose \<lparr>rel_x = 0, rel_y = 0, rel_z = 0, rel_F = 12\<rparr>], Inr RetNone)"
proof -
  have h1: "index_in_range (scenario_manager 0 True)"
    by (simp add: index_in_range_def scenario_manager_def scenario_list_def)
  have h2: "\<forall>v \<in> set (waypoint_list (scenario_manager 0 True)). 3 \<le> length v"
    by (simp add: scenario_manager_def scenario_list_def)
  show ?thesis
    using odometryCallback_advance [OF h1 h2, of "sample_at 0 0 (- 10)" 7]
      odometryCallback_advance [OF h1 h2, of "sample_at 0 0 (- 12)" 7] h1 h2
    by (simp add: scenario_manager_def scenario_list_def sample_at_def command_of_def
        np_arctan2_def)
qed

text \<open>
  Claim C8. Take a state with the index inside the list and a current waypoint of at
  least three entries. Whatever the distance, and also when publishing the next target
  raises, a position sample publishes exactly one relative pose: it carries
  \<open>position.x\<close>, \<open>position.y\<close>, the yaw \<open>arctan2 (2 (w z + x y)) (1 - 2 (y\<^sup>2 + z\<^sup>2))\<close> of the
  orientation \<open>(w, x, y, z)\<close>, and \<open>- position.z\<close>.
\<close>

theorem odometryCallback_relative_pose:
  assumes "index_in_range s"
    and "3 \<le> length (waypoint_list s ! nat (current_waypoint_index s))"
  shows "relative_poses (fst (snd (odometryCallback now s msg))) =
           [\<lparr>rel_x = position_x msg, rel_y = position_y msg,
             rel_z = np_arctan2
                       (2 * (orientation_w msg * orientation_z msg
                             + orientation_x msg * orientation_y msg))
                       (1 - 2 * ((orientation_y msg)\<^sup>2 + (orientation_z msg)\<^sup>2)),
             rel_F = - position_z msg\<rparr>]"
proof -
  have c: "0 \<le> current_waypoint_index s"
    "current_waypoint_index s < int (length (waypoint_list s))"
    using assms(1) by (simp_all add: index_in_range_def)
  show ?thesis
    unfolding odometryCallback_unfold [OF c assms(2)]
    by (simp add: Let_def split: sum.splits)
qed

theorem odometryCallback_relative_pose_witness:
  "index_in_range (init_manager [[0, 0, 10], [5, 5]] 1 True)
   \<and> 3 \<le> length (waypoint_list (init_manager [[0, 0, 10], [5, 5]] 1 True)
                    ! nat (current_waypoint_index (init_manager [[0, 0, 10], [5, 5]] 1 True)))
   \<and> relative_poses
         (fst (snd (odometryCallback 7 (init_manager [[0, 0, 10], [5, 5]] 1 True)
                      (sample_at 3 4 (- 10))))) =
       [\<lparr>rel_x = 3, rel_y = 4, rel_z = 0, rel_F = 10\<rparr>]
   \<and> relative_poses
         (fst (snd (odometryCallback 7 (init_manager [[0, 0, 10], [5, 5]] 1 True)
                      (sample_at 0 0 (- 10))))) =
       [\<lparr>rel_x = 0, rel_y = 0, rel_z = 0, rel_F = 10\<rparr>]
   \<and> snd (snd (odometryCallback 7 (init_manager [[0, 0, 10], [5, 5]] 1 True)
                 (sample_at 0 0 (- 10)))) = Inl IndexError"
proof -
  let ?s = "init_manager [[0, 0, 10], [5, 5]] 1 True"
  have h1: "index_in_range ?s"
    by (simp add: index_in_range_def init_manager_def)
  have h2: "3 \<le> length (waypoint_list ?s ! nat (current_waypoint_index ?s))"
    by (simp add: init_manager_def)
  have raises: "snd (snd (odometryCallback 7 ?s (sample_at 0 0 (- 10)))) = Inl IndexError"
    by (simp add: odometryCallback_def init_manager_def sample_at_def py_getitem_def
        np_sub_def np_linalg_norm_def Let_def wrapWaypointIndex_def py_mod_def
        pubNextWaypoint_def np_item_def)
  show ?thesis
    using odometryCallback_relative_pose [OF h1 h2, of 7 "sample_at 3 4 (- 10)"]
      odometryCallback_relative_pose [OF h1 h2, of 7 "sample_at 0 0 (- 10)"] h1 h2 raises
    by (simp add: sample_at_def np_arctan2_def)
qed

end
